theory Spec2Isabelle
  imports Main "HOL-Library.Multiset"
begin

section \<open>Data model\<close>

text \<open>
  The tables of \<^verbatim>\<open>server/src/db/schema.ts\<close> and the input types of
  \<^verbatim>\<open>server/src/schema.ts\<close>, restricted to the columns the ledger handlers
  (\<^verbatim>\<open>createTransaction\<close>, \<^verbatim>\<open>createPayment\<close>, \<^verbatim>\<open>getCustomerDebt\<close>) read or
  write, plus \<^verbatim>\<open>is_active\<close>. Display columns (barcode, cost, category, image_url)
  and the timestamps are left out.

  Money columns are \<^verbatim>\<open>numeric(10,2)\<close>; an amount is modelled as an \<open>int\<close> counting
  minor units (hundredths), and the arithmetic on amounts is exact. The handlers compute
  on JavaScript numbers (doubles); the rounding of that arithmetic and the range of the
  columns are outside the model. Identifiers and quantities are \<open>int\<close>. A table is the list of its rows in insertion order; a
  \<^verbatim>\<open>serial\<close> key is drawn from a sequence kept beside the tables.
\<close>

datatype payment_method = Cash | Qris | Debt | Bank_transfer

datatype payment_status = Paid | Pending | Partial

text \<open>The payment input schema admits only \<^verbatim>\<open>'cash' | 'qris' | 'bank_transfer'\<close>.\<close>

datatype payment_input_method = Pay_cash | Pay_qris | Pay_bank_transfer

fun to_payment_method :: "payment_input_method \<Rightarrow> payment_method" where
  "to_payment_method Pay_cash = Cash"
| "to_payment_method Pay_qris = Qris"
| "to_payment_method Pay_bank_transfer = Bank_transfer"

record product =
  p_id :: int
  p_name :: string
  p_price :: int
  stock_quantity :: int
  min_stock :: "int option"
  is_active :: bool

record transaction =
  t_id :: int
  t_customer_id :: "int option"
  total_amount :: int
  discount_amount :: int
  tax_amount :: int
  final_amount :: int
  t_payment_method :: payment_method
  payment_status :: payment_status
  t_notes :: "string option"

record transaction_item =
  ti_id :: int
  ti_transaction_id :: int
  ti_product_id :: int
  ti_quantity :: int
  ti_unit_price :: int
  subtotal :: int

record payment =
  pay_id :: int
  pay_transaction_id :: int
  pay_customer_id :: int
  pay_amount :: int
  pay_payment_method :: payment_method
  pay_notes :: "string option"

record db =
  products :: "product list"
  transactions :: "transaction list"
  transaction_items :: "transaction_item list"
  payments :: "payment list"
  transactions_id_seq :: int
  transaction_items_id_seq :: int
  payments_id_seq :: int

text \<open>\<^verbatim>\<open>CreateTransactionInput\<close> and \<^verbatim>\<open>CreatePaymentInput\<close>.\<close>

record cart_item =
  product_id :: int
  quantity :: int
  unit_price :: int

record createTransactionInput =
  customer_id :: "int option"
  items :: "cart_item list"
  in_discount_amount :: int
  in_tax_amount :: int
  payment_method :: payment_method
  in_notes :: "string option"

record createPaymentInput =
  cp_transaction_id :: int
  cp_customer_id :: int
  amount :: int
  cp_payment_method :: payment_input_method
  cp_notes :: "string option"

text \<open>
  The handlers throw \<^verbatim>\<open>Error\<close> objects that differ in their message only; each
  message is a constructor here, carrying the values the message interpolates.
\<close>

datatype error =
    ProductNotFound int
  | InsufficientStock string int int
  | TransactionNotFound
  | NotDebtTransaction

text \<open>
  The constraints of \<^verbatim>\<open>createTransactionInputSchema\<close> and
  \<^verbatim>\<open>createPaymentInputSchema\<close> (zod), checked by the RPC layer before a handler runs.
\<close>

definition createTransactionInputSchema :: "createTransactionInput \<Rightarrow> bool" where
  "createTransactionInputSchema inp =
     (items inp \<noteq> [] \<and>
      list_all (\<lambda>i. 0 < quantity i \<and> 0 < unit_price i) (items inp) \<and>
      0 \<le> in_discount_amount inp \<and> 0 \<le> in_tax_amount inp)"


section \<open>createTransaction\<close>

text \<open>
  The handler \<^verbatim>\<open>createTransaction\<close> of \<^verbatim>\<open>handlers/create_transaction\<close> (the file
  \<^verbatim>\<open>src/unnamed/part_003\<close>); line numbers are those of that file.

  Lines 17-29: one \<^verbatim>\<open>select ... where id = productId\<close> per item, in cart order; the
  first row of the result is pushed, an empty result throws.
\<close>

fun get_all_products :: "product list \<Rightarrow> int list \<Rightarrow> error + product list" where
  "get_all_products tbl [] = Inr []"
| "get_all_products tbl (productId # rest) =
     (case filter (\<lambda>p. p_id p = productId) tbl of
        [] \<Rightarrow> Inl (ProductNotFound productId)
      | productResult0 # _ \<Rightarrow>
          (case get_all_products tbl rest of
             Inl e \<Rightarrow> Inl e
           | Inr allProducts \<Rightarrow> Inr (productResult0 # allProducts)))"

text \<open>Lines 31-41: each item is compared with the row found for it in \<^verbatim>\<open>allProducts\<close>.\<close>

fun check_stock :: "product list \<Rightarrow> cart_item list \<Rightarrow> error + unit" where
  "check_stock allProducts [] = Inr ()"
| "check_stock allProducts (item # rest) =
     (case find (\<lambda>p. p_id p = product_id item) allProducts of
        None \<Rightarrow> Inl (ProductNotFound (product_id item))
      | Some product \<Rightarrow>
          if stock_quantity product < quantity item
          then Inl (InsufficientStock (p_name product) (stock_quantity product) (quantity item))
          else check_stock allProducts rest)"

text \<open>Line 44: \<^verbatim>\<open>items.reduce((sum, item) => sum + item.quantity * item.unit_price, 0)\<close>.\<close>

definition calc_total :: "cart_item list \<Rightarrow> int" where
  "calc_total its = foldl (\<lambda>sum item. sum + quantity item * unit_price item) 0 its"

text \<open>Lines 50-63: the transaction row, with its key drawn from the sequence.\<close>

definition insert_transaction :: "createTransactionInput \<Rightarrow> db \<Rightarrow> transaction \<times> db" where
  "insert_transaction inp s =
     (let totalAmount = calc_total (items inp);
          finalAmount = totalAmount - in_discount_amount inp + in_tax_amount inp;
          paymentStatus = (if payment_method inp = Debt then Pending else Paid);
          row = \<lparr> t_id = transactions_id_seq s,
                  t_customer_id = customer_id inp,
                  total_amount = totalAmount,
                  discount_amount = in_discount_amount inp,
                  tax_amount = in_tax_amount inp,
                  final_amount = finalAmount,
                  t_payment_method = payment_method inp,
                  payment_status = paymentStatus,
                  t_notes = in_notes inp \<rparr>
      in (row, s\<lparr> transactions := transactions s @ [row],
                  transactions_id_seq := transactions_id_seq s + 1 \<rparr>))"

text \<open>Lines 67-80: one item row per cart item.\<close>

fun insert_items :: "int \<Rightarrow> cart_item list \<Rightarrow> db \<Rightarrow> db" where
  "insert_items tid [] s = s"
| "insert_items tid (item # rest) s =
     insert_items tid rest
       (s\<lparr> transaction_items := transaction_items s @
              [\<lparr> ti_id = transaction_items_id_seq s,
                 ti_transaction_id = tid,
                 ti_product_id = product_id item,
                 ti_quantity = quantity item,
                 ti_unit_price = unit_price item,
                 subtotal = quantity item * unit_price item \<rparr>],
           transaction_items_id_seq := transaction_items_id_seq s + 1 \<rparr>)"

text \<open>
  Lines 82-96: for each item, the new stock is computed from the row held in
  \<^verbatim>\<open>allProducts\<close> (read at lines 17-29) and written to every row with that id.
\<close>

definition set_stock :: "int \<Rightarrow> int \<Rightarrow> product list \<Rightarrow> product list" where
  "set_stock pid newStockQuantity tbl =
     map (\<lambda>p. if p_id p = pid then p\<lparr> stock_quantity := newStockQuantity \<rparr> else p) tbl"

fun update_stock :: "product list \<Rightarrow> cart_item list \<Rightarrow> product list \<Rightarrow> product list" where
  "update_stock allProducts [] tbl = tbl"
| "update_stock allProducts (item # rest) tbl =
     (case find (\<lambda>p. p_id p = product_id item) allProducts of
        None \<Rightarrow> update_stock allProducts rest tbl
      | Some product \<Rightarrow>
          update_stock allProducts rest
            (set_stock (product_id item) (stock_quantity product - quantity item) tbl))"

text \<open>
  The callback passed to \<^verbatim>\<open>db.transaction\<close> (lines 9-106). It returns the result or
  the thrown error together with the database as the callback left it. The query of
  lines 12-15 has an unused result and is omitted.
\<close>

definition createTransaction_tx :: "createTransactionInput \<Rightarrow> db \<Rightarrow> (error + transaction) \<times> db" where
  "createTransaction_tx inp s =
     (let productIds = map product_id (items inp) in
      case get_all_products (products s) productIds of
        Inl e \<Rightarrow> (Inl e, s)
      | Inr allProducts \<Rightarrow>
          (case check_stock allProducts (items inp) of
             Inl e \<Rightarrow> (Inl e, s)
           | Inr _ \<Rightarrow>
               (let (trans, s1) = insert_transaction inp s;
                    s2 = insert_items (t_id trans) (items inp) s1;
                    s3 = s2\<lparr> products := update_stock allProducts (items inp) (products s2) \<rparr>
                in (Inr trans, s3))))"

text \<open>
  \<^verbatim>\<open>db.transaction\<close>: when the callback throws, the writes to the tables are rolled
  back and the error is rethrown; values drawn from a sequence are not given back.
\<close>

definition rollback :: "db \<Rightarrow> db \<Rightarrow> db" where
  "rollback s0 s' =
     s0\<lparr> transactions_id_seq := transactions_id_seq s',
         transaction_items_id_seq := transaction_items_id_seq s',
         payments_id_seq := payments_id_seq s' \<rparr>"

definition db_transaction :: "(db \<Rightarrow> (error + 'a) \<times> db) \<Rightarrow> db \<Rightarrow> (error + 'a) \<times> db" where
  "db_transaction body s =
     (case body s of
        (Inl e, s') \<Rightarrow> (Inl e, rollback s s')
      | (Inr r, s') \<Rightarrow> (Inr r, s'))"

definition createTransaction :: "createTransactionInput \<Rightarrow> db \<Rightarrow> (error + transaction) \<times> db" where
  "createTransaction inp s = db_transaction (createTransaction_tx inp) s"

section \<open>createPayment\<close>

text \<open>
  \<^verbatim>\<open>server/src/handlers/create_payment.ts\<close>. The handler runs its statements on
  \<^verbatim>\<open>db\<close> directly, outside any transaction.
\<close>

definition derive_status :: "int \<Rightarrow> int \<Rightarrow> payment_status \<Rightarrow> payment_status" where
  "derive_status totalPaidAmount transactionFinalAmount current =
     (if totalPaidAmount \<ge> transactionFinalAmount then Paid
      else if totalPaidAmount > 0 then Partial
      else current)"

definition total_paid :: "int \<Rightarrow> payment list \<Rightarrow> int" where
  "total_paid tid tbl =
     foldl (\<lambda>sum p. sum + pay_amount p) 0 (filter (\<lambda>p. pay_transaction_id p = tid) tbl)"

definition set_payment_status :: "int \<Rightarrow> payment_status \<Rightarrow> transaction list \<Rightarrow> transaction list" where
  "set_payment_status tid st tbl =
     map (\<lambda>t. if t_id t = tid then t\<lparr> payment_status := st \<rparr> else t) tbl"

definition createPayment :: "createPaymentInput \<Rightarrow> db \<Rightarrow> (error + payment) \<times> db" where
  "createPayment inp s =
     (case filter (\<lambda>t. t_id t = cp_transaction_id inp) (transactions s) of
        [] \<Rightarrow> (Inl TransactionNotFound, s)
      | transaction0 # _ \<Rightarrow>
          if t_payment_method transaction0 \<noteq> Debt then (Inl NotDebtTransaction, s)
          else
            (let row = \<lparr> pay_id = payments_id_seq s,
                         pay_transaction_id = cp_transaction_id inp,
                         pay_customer_id = cp_customer_id inp,
                         pay_amount = amount inp,
                         pay_payment_method = to_payment_method (cp_payment_method inp),
                         pay_notes = cp_notes inp \<rparr>;
                 s1 = s\<lparr> payments := payments s @ [row],
                         payments_id_seq := payments_id_seq s + 1 \<rparr>;
                 totalPaidAmount = total_paid (cp_transaction_id inp) (payments s1);
                 newPaymentStatus =
                   derive_status totalPaidAmount (final_amount transaction0)
                     (payment_status transaction0);
                 s2 = (if newPaymentStatus \<noteq> payment_status transaction0
                       then s1\<lparr> transactions :=
                              set_payment_status (cp_transaction_id inp) newPaymentStatus
                                (transactions s1) \<rparr>
                       else s1)
             in (Inr row, s2)))"

section \<open>getCustomerDebt\<close>





section \<open>Vocabulary of the properties\<close>

text \<open>The first row of a table with a given key, as \<^verbatim>\<open>select ... where id = k\<close> followed by \<^verbatim>\<open>[0]\<close> reads it.\<close>

definition find_product :: "int \<Rightarrow> product list \<Rightarrow> product option" where
  "find_product pid tbl = find (\<lambda>p. p_id p = pid) tbl"

definition find_transaction :: "int \<Rightarrow> db \<Rightarrow> transaction option" where
  "find_transaction tid s = find (\<lambda>t. t_id t = tid) (transactions s)"



text \<open>The payment ledger of one transaction, and the status stored for it.\<close>

definition ledger_total :: "int \<Rightarrow> db \<Rightarrow> int" where
  "ledger_total tid s =
     sum_list (map pay_amount (filter (\<lambda>p. pay_transaction_id p = tid) (payments s)))"

definition stored_status :: "int \<Rightarrow> db \<Rightarrow> payment_status option" where
  "stored_status tid s = map_option payment_status (find_transaction tid s)"





text \<open>Overwriting the \<^verbatim>\<open>is_active\<close> flag of every product, as a function of its id.\<close>

definition flag_product :: "(int \<Rightarrow> bool) \<Rightarrow> product \<Rightarrow> product" where
  "flag_product f p = p\<lparr> is_active := f (p_id p) \<rparr>"

definition set_active :: "(int \<Rightarrow> bool) \<Rightarrow> db \<Rightarrow> db" where
  "set_active f s = s\<lparr> products := map (flag_product f) (products s) \<rparr>"

section \<open>Example states\<close>

text \<open>
  A catalog with one product (id 1, catalog price 12.00, three in stock), carts priced
  at 10.00 a unit, and a ledger with two credit sales and one cash sale.
\<close>

definition ex_product :: product where
  "ex_product = \<lparr> p_id = 1, p_name = ''P'', p_price = 1200, stock_quantity = 3,
                   min_stock = None, is_active = True \<rparr>"

definition ex_db :: db where
  "ex_db = \<lparr> products = [ex_product], transactions = [], transaction_items = [],
              payments = [], transactions_id_seq = 1, transaction_items_id_seq = 1,
              payments_id_seq = 1 \<rparr>"

definition ex_db_inactive :: db where
  "ex_db_inactive = ex_db\<lparr> products := [ex_product\<lparr> is_active := False \<rparr>] \<rparr>"

definition ex_item :: "int \<Rightarrow> int \<Rightarrow> cart_item" where
  "ex_item pid qty = \<lparr> product_id = pid, quantity = qty, unit_price = 1000 \<rparr>"

definition ex_cart :: "cart_item list \<Rightarrow> int \<Rightarrow> createTransactionInput" where
  "ex_cart its discount = \<lparr> customer_id = None, items = its, in_discount_amount = discount,
                            in_tax_amount = 0, payment_method = Cash, in_notes = None \<rparr>"

definition ex_sale :: "int \<Rightarrow> int \<Rightarrow> transaction" where
  "ex_sale tot discount = \<lparr> t_id = 1, t_customer_id = None, total_amount = tot,
       discount_amount = discount, tax_amount = 0, final_amount = tot - discount,
       t_payment_method = Cash, payment_status = Paid, t_notes = None \<rparr>"

definition ex_tx :: "int \<Rightarrow> int \<Rightarrow> int \<Rightarrow> payment_method \<Rightarrow> payment_status \<Rightarrow> transaction" where
  "ex_tx tid cid final m st = \<lparr> t_id = tid, t_customer_id = Some cid, total_amount = final,
       discount_amount = 0, tax_amount = 0, final_amount = final,
       t_payment_method = m, payment_status = st, t_notes = None \<rparr>"

definition ex_ledger_db :: db where
  "ex_ledger_db = \<lparr> products = [],
       transactions = [ex_tx 1 1 10000 Debt Pending, ex_tx 2 2 5000 Debt Pending,
                       ex_tx 3 1 5000 Cash Paid],
       transaction_items = [], payments = [], transactions_id_seq = 4,
       transaction_items_id_seq = 1, payments_id_seq = 1 \<rparr>"

definition ex_pay :: "int \<Rightarrow> int \<Rightarrow> int \<Rightarrow> createPaymentInput" where
  "ex_pay tid cid amt = \<lparr> cp_transaction_id = tid, cp_customer_id = cid, amount = amt,
       cp_payment_method = Pay_cash, cp_notes = None \<rparr>"

lemmas ex_defs = ex_product_def ex_db_def ex_db_inactive_def ex_cart_def ex_item_def
  ex_sale_def

lemmas ct_defs = createTransaction_def db_transaction_def createTransaction_tx_def
  insert_transaction_def calc_total_def set_stock_def rollback_def Let_def

lemmas pay_defs = ex_tx_def ex_ledger_db_def ex_pay_def createPayment_def total_paid_def
  derive_status_def set_payment_status_def Let_def find_transaction_def stored_status_def
  ledger_total_def

section \<open>Auxiliary facts\<close>

subsection \<open>Lists and folds\<close>

lemma filter_nil_find: "(filter P xs = []) = (find P xs = None)"
  by (induction xs) auto

lemma filter_cons_find: "filter P xs = y # ys \<Longrightarrow> find P xs = Some y"
  by (induction xs) (auto split: if_splits)





subsection \<open>The steps of createTransaction\<close>

lemma insert_items_products [simp]: "products (insert_items tid its s) = products s"
  by (induction its arbitrary: s) auto

lemma insert_items_transactions [simp]: "transactions (insert_items tid its s) = transactions s"
  by (induction its arbitrary: s) auto

lemma insert_items_payments [simp]: "payments (insert_items tid its s) = payments s"
  by (induction its arbitrary: s) auto

lemma rollback_same [simp]: "rollback s s = s"
  by (simp add: rollback_def)

text \<open>Every throw of the callback comes before its first write.\<close>

lemma createTransaction_tx_Inl:
  "createTransaction_tx inp s = (Inl e, s') \<Longrightarrow> s' = s"
  by (auto simp: createTransaction_tx_def Let_def split: sum.splits prod.splits)

lemma createTransaction_Inl:
  "createTransaction inp s = (Inl e, s') \<Longrightarrow> s' = s"
  unfolding createTransaction_def db_transaction_def
  by (auto split: prod.splits sum.splits dest: createTransaction_tx_Inl)

lemma createTransaction_Inr:
  "createTransaction inp s = (Inr t, s') \<Longrightarrow>
     \<exists>allProducts. get_all_products (products s) (map product_id (items inp)) = Inr allProducts \<and>
       check_stock allProducts (items inp) = Inr () \<and>
       t = fst (insert_transaction inp s) \<and>
       transactions s' = transactions s @ [t] \<and>
       products s' = update_stock allProducts (items inp) (products s) \<and>
       payments s' = payments s"
  unfolding createTransaction_def db_transaction_def createTransaction_tx_def
  by (auto simp: Let_def insert_transaction_def split: prod.splits sum.splits)


text \<open>The row held in \<^verbatim>\<open>allProducts\<close> for an id of the cart is the table's first row with that id.\<close>

lemma get_all_products_find:
  "get_all_products tbl pids = Inr ps \<Longrightarrow> pid \<in> set pids \<Longrightarrow>
     find_product pid ps = find_product pid tbl \<and> find_product pid tbl \<noteq> None"
proof (induction pids arbitrary: ps)
  case Nil
  then show ?case by simp
next
  case (Cons a pids)
  then obtain p rest ps' where f: "filter (\<lambda>p. p_id p = a) tbl = p # rest"
    and g: "get_all_products tbl pids = Inr ps'" and ps: "ps = p # ps'"
    by (auto split: list.splits sum.splits)
  from f have fa: "find_product a tbl = Some p"
    by (auto simp: find_product_def dest: filter_cons_find)
  from f have pa: "p_id p = a"
    by (metis (mono_tags, lifting) filter_eq_ConsD)
  show ?case
  proof (cases "pid = a")
    case True
    then show ?thesis using fa pa ps by (simp add: find_product_def)
  next
    case False
    then have "pid \<in> set pids" using Cons.prems(2) by simp
    from Cons.IH[OF g this] show ?thesis using False pa ps by (simp add: find_product_def)
  qed
qed

lemma check_stock_Inr:
  "(check_stock ps its = Inr u) =
     (\<forall>i\<in>set its. \<exists>p. find_product (product_id i) ps = Some p \<and> quantity i \<le> stock_quantity p)"
  by (induction its) (auto simp: find_product_def split: option.splits)


lemma update_stock_nonneg:
  "\<forall>i\<in>set its. \<exists>p. find_product (product_id i) ps = Some p \<and> quantity i \<le> stock_quantity p \<Longrightarrow>
   \<forall>p\<in>set tbl. 0 \<le> stock_quantity p \<Longrightarrow>
   \<forall>p\<in>set (update_stock ps its tbl). 0 \<le> stock_quantity p"
proof (induction its arbitrary: tbl)
  case Nil
  then show ?case by simp
next
  case (Cons i its)
  from Cons.prems(1) obtain p where p: "find_product (product_id i) ps = Some p"
    and q: "quantity i \<le> stock_quantity p" by auto
  have "\<forall>r\<in>set (set_stock (product_id i) (stock_quantity p - quantity i) tbl). 0 \<le> stock_quantity r"
    using Cons.prems(2) q by (auto simp: set_stock_def)
  from Cons.IH[OF _ this] Cons.prems(1) p show ?case
    by (simp add: find_product_def)
qed

subsection \<open>Stock conservation for carts without repeated products\<close>

text \<open>
  With unique product ids in the table (the primary key) and pairwise distinct product
  ids in the cart, every product is written at most once, and the stock falls by the
  quantities sold.
\<close>

lemma set_stock_ids: "map p_id (set_stock pid n tbl) = map p_id tbl"
  by (induction tbl) (auto simp: set_stock_def)

lemma set_stock_other: "r \<in> set tbl \<Longrightarrow> p_id r \<noteq> pid \<Longrightarrow> r \<in> set (set_stock pid n tbl)"
  by (auto simp: set_stock_def)

lemma set_stock_absent:
  "pid \<notin> p_id ` set tbl \<Longrightarrow> set_stock pid n tbl = tbl"
  by (induction tbl) (auto simp: set_stock_def)

lemma set_stock_sum:
  "distinct (map p_id tbl) \<Longrightarrow> r \<in> set tbl \<Longrightarrow> p_id r = pid \<Longrightarrow>
     sum_list (map stock_quantity (set_stock pid n tbl)) =
       sum_list (map stock_quantity tbl) - stock_quantity r + n"
proof (induction tbl)
  case Nil
  then show ?case by simp
next
  case (Cons a tbl)
  show ?case
  proof (cases "a = r")
    case True
    then have "pid \<notin> p_id ` set tbl" using Cons.prems by auto
    from set_stock_absent[OF this] True Cons.prems(3) show ?thesis
      by (simp add: set_stock_def)
  next
    case False
    then have r: "r \<in> set tbl" using Cons.prems(2) by simp
    then have "p_id a \<noteq> pid" using Cons.prems(1,3) by auto
    moreover have "sum_list (map stock_quantity (set_stock pid n tbl)) =
       sum_list (map stock_quantity tbl) - stock_quantity r + n"
      using Cons.IH[OF _ r Cons.prems(3)] Cons.prems(1) by simp
    ultimately show ?thesis by (simp add: set_stock_def)
  qed
qed

lemma update_stock_sum:
  "distinct (map p_id tbl) \<Longrightarrow> distinct (map product_id its) \<Longrightarrow>
   \<forall>i\<in>set its. \<exists>p r. find_product (product_id i) ps = Some p \<and> r \<in> set tbl \<and>
      p_id r = product_id i \<and> stock_quantity r = stock_quantity p \<Longrightarrow>
   sum_list (map stock_quantity (update_stock ps its tbl)) =
     sum_list (map stock_quantity tbl) - sum_list (map quantity its)"
proof (induction its arbitrary: tbl)
  case Nil
  then show ?case by simp
next
  case (Cons i its)
  from Cons.prems(3) obtain p r where p: "find_product (product_id i) ps = Some p"
    and r: "r \<in> set tbl" "p_id r = product_id i" "stock_quantity r = stock_quantity p"
    by auto
  let ?tbl = "set_stock (product_id i) (stock_quantity p - quantity i) tbl"
  have d: "distinct (map p_id ?tbl)" using Cons.prems(1) by (simp add: set_stock_ids)
  have s: "sum_list (map stock_quantity ?tbl) = sum_list (map stock_quantity tbl) - quantity i"
    using set_stock_sum[OF Cons.prems(1) r(1,2)] r(3) by simp
  have rest: "\<forall>j\<in>set its. \<exists>p r. find_product (product_id j) ps = Some p \<and> r \<in> set ?tbl \<and>
      p_id r = product_id j \<and> stock_quantity r = stock_quantity p"
  proof
    fix j assume j: "j \<in> set its"
    then have "product_id j \<in> product_id ` set its" by (rule imageI)
    moreover have "product_id i \<notin> product_id ` set its" using Cons.prems(2) by simp
    ultimately have ne: "product_id j \<noteq> product_id i" by metis
    from Cons.prems(3) j obtain p' r' where
      "find_product (product_id j) ps = Some p'" "r' \<in> set tbl"
      "p_id r' = product_id j" "stock_quantity r' = stock_quantity p'" by fastforce
    with ne set_stock_other[of r' tbl "product_id i"]
    show "\<exists>p r. find_product (product_id j) ps = Some p \<and> r \<in> set ?tbl \<and>
      p_id r = product_id j \<and> stock_quantity r = stock_quantity p" by auto
  qed
  from Cons.IH[OF d _ rest] Cons.prems(2) s p show ?case
    by (simp add: find_product_def)
qed

lemma find_product_Some: "find_product pid tbl = Some p \<Longrightarrow> p \<in> set tbl \<and> p_id p = pid"
  unfolding find_product_def by (induction tbl) (auto split: if_splits)

lemma createTransaction_conserves_distinct:
  assumes "distinct (map p_id (products s))" and "distinct (map product_id (items inp))"
    and "fst (createTransaction inp s) = Inr t"
  shows "sum_list (map stock_quantity (products s)) -
         sum_list (map stock_quantity (products (snd (createTransaction inp s)))) =
         sum_list (map quantity (items inp))"
proof -
  from assms(3) have "createTransaction inp s = (Inr t, snd (createTransaction inp s))"
    by (cases "createTransaction inp s") simp
  from createTransaction_Inr[OF this] obtain ps where
    g: "get_all_products (products s) (map product_id (items inp)) = Inr ps" and
    c: "check_stock ps (items inp) = Inr ()" and
    u: "products (snd (createTransaction inp s)) = update_stock ps (items inp) (products s)"
    by auto
  have "\<forall>i\<in>set (items inp). \<exists>p r. find_product (product_id i) ps = Some p \<and>
      r \<in> set (products s) \<and> p_id r = product_id i \<and> stock_quantity r = stock_quantity p"
  proof
    fix i assume i: "i \<in> set (items inp)"
    then have "product_id i \<in> set (map product_id (items inp))" by simp
    from get_all_products_find[OF g this] obtain p where
      p: "find_product (product_id i) ps = Some p" "find_product (product_id i) (products s) = Some p"
      by auto
    from find_product_Some[OF p(2)] p(1)
    show "\<exists>p r. find_product (product_id i) ps = Some p \<and>
      r \<in> set (products s) \<and> p_id r = product_id i \<and> stock_quantity r = stock_quantity p"
      by auto
  qed
  from update_stock_sum[OF assms(1,2) this] u show ?thesis by simp
qed

subsection \<open>createTransaction and the is_active flags\<close>

lemma flag_product_fields [simp]:
  "p_id (flag_product f p) = p_id p"
  "p_name (flag_product f p) = p_name p"
  "stock_quantity (flag_product f p) = stock_quantity p"
  by (simp_all add: flag_product_def)


lemma set_active_fields [simp]:
  "products (set_active f s) = map (flag_product f) (products s)"
  "transactions (set_active f s) = transactions s"
  "transaction_items (set_active f s) = transaction_items s"
  "payments (set_active f s) = payments s"
  "transactions_id_seq (set_active f s) = transactions_id_seq s"
  "transaction_items_id_seq (set_active f s) = transaction_items_id_seq s"
  "payments_id_seq (set_active f s) = payments_id_seq s"
  by (simp_all add: set_active_def)












subsection \<open>The steps of createPayment\<close>







section \<open>The claims\<close>

subsection \<open>C1: conservation of stock\<close>

text \<open>
  Claim C1: on every successful \<^verbatim>\<open>createTransaction\<close>, the stock before minus the
  stock after, summed over the products, equals the sum of the quantities sold, also
  when several items of the cart reference one product.

  The code computes each new stock from the row read before the first write (lines
  84-86), so a later item of the same product overwrites the decrement of an earlier
  one. With three units in stock and a cart of two items of two units each, the sale
  commits, four units are sold and the stock falls by two. (For carts without repeated
  products the conservation holds: \<open>createTransaction_conserves_distinct\<close>.)
\<close>

theorem createTransaction_duplicate_stock_drift:
  "createTransactionInputSchema (ex_cart [ex_item 1 2, ex_item 1 2] 0) \<and>
   fst (createTransaction (ex_cart [ex_item 1 2, ex_item 1 2] 0) ex_db) = Inr (ex_sale 4000 0) \<and>
   sum_list (map quantity (items (ex_cart [ex_item 1 2, ex_item 1 2] 0))) = 4 \<and>
   map stock_quantity (products ex_db) = [3] \<and>
   map stock_quantity
     (products (snd (createTransaction (ex_cart [ex_item 1 2, ex_item 1 2] 0) ex_db))) = [1] \<and>
   sum_list (map stock_quantity (products ex_db)) -
     sum_list (map stock_quantity
       (products (snd (createTransaction (ex_cart [ex_item 1 2, ex_item 1 2] 0) ex_db)))) = 2"
  by (simp add: ex_defs ct_defs createTransactionInputSchema_def)

subsection \<open>C2: cumulative stock validation\<close>

text \<open>
  Claim C2: when several items reference one product, \<^verbatim>\<open>createTransaction\<close> validates
  their cumulative quantity against the stock and fails with the insufficient-stock
  error when it exceeds the stock (stock 3 with two items of quantity 2 must fail).

  The check of lines 32-41 compares each item on its own with the row read for it. On
  the claim's own example the cumulative demand is 4 against a stock of 3, no item
  alone exceeds the stock, and the call returns the committed sale.
\<close>

theorem createTransaction_duplicate_accepted:
  "createTransactionInputSchema (ex_cart [ex_item 1 2, ex_item 1 2] 0) \<and>
   stock_quantity ex_product = 3 \<and>
   sum_list (map quantity
     (filter (\<lambda>i. product_id i = p_id ex_product)
        (items (ex_cart [ex_item 1 2, ex_item 1 2] 0)))) = 4 \<and>
   \<not> isl (fst (createTransaction (ex_cart [ex_item 1 2, ex_item 1 2] 0) ex_db)) \<and>
   createTransaction (ex_cart [ex_item 1 2, ex_item 1 2] 0) ex_db \<noteq>
     (Inl (InsufficientStock ''P'' 3 4), ex_db) \<and>
   transactions (snd (createTransaction (ex_cart [ex_item 1 2, ex_item 1 2] 0) ex_db)) =
     [ex_sale 4000 0]"
  by (simp add: ex_defs ct_defs createTransactionInputSchema_def)

subsection \<open>C3: atomicity on failure\<close>



subsection \<open>C4: the payment status is a function of the ledger\<close>



subsection \<open>C5: the customer debt\<close>



subsection \<open>C6: inactive products\<close>




subsection \<open>C7: the amounts of a committed sale\<close>



subsection \<open>C8: the preconditions of createPayment\<close>

text \<open>
  Claim C8: \<^verbatim>\<open>createPayment\<close> fails with the not-found error when the referenced
  transaction does not exist, and with the invalid-state error when it exists and its
  payment method is not \<^verbatim>\<open>debt\<close>; in both cases no payment row is created and no
  transaction is modified: the database is what it was.
\<close>

theorem createPayment_preconditions:
  "(find_transaction (cp_transaction_id inp) s = None \<longrightarrow>
      createPayment inp s = (Inl TransactionNotFound, s)) \<and>
   (\<forall>t. find_transaction (cp_transaction_id inp) s = Some t \<and> t_payment_method t \<noteq> Debt \<longrightarrow>
      createPayment inp s = (Inl NotDebtTransaction, s))"
  unfolding find_transaction_def createPayment_def
  by (auto simp: filter_nil_find split: list.splits dest: filter_cons_find)

theorem createPayment_preconditions_witness:
  "find_transaction 99 ex_ledger_db = None \<and>
   createPayment (ex_pay 99 1 5000) ex_ledger_db = (Inl TransactionNotFound, ex_ledger_db) \<and>
   find_transaction 3 ex_ledger_db = Some (ex_tx 3 1 5000 Cash Paid) \<and>
   t_payment_method (ex_tx 3 1 5000 Cash Paid) = Cash \<and>
   createPayment (ex_pay 3 1 5000) ex_ledger_db = (Inl NotDebtTransaction, ex_ledger_db)"
proof -
  have n: "find_transaction (cp_transaction_id (ex_pay 99 1 5000)) ex_ledger_db = None"
    by (simp add: pay_defs)
  have c: "find_transaction (cp_transaction_id (ex_pay 3 1 5000)) ex_ledger_db =
      Some (ex_tx 3 1 5000 Cash Paid)"
    by (simp add: pay_defs)
  have m: "t_payment_method (ex_tx 3 1 5000 Cash Paid) = Cash" by (simp add: ex_tx_def)
  from createPayment_preconditions[of "ex_pay 99 1 5000" ex_ledger_db] n
  have 1: "createPayment (ex_pay 99 1 5000) ex_ledger_db = (Inl TransactionNotFound, ex_ledger_db)"
    by simp
  from createPayment_preconditions[of "ex_pay 3 1 5000" ex_ledger_db] c m
  have 2: "createPayment (ex_pay 3 1 5000) ex_ledger_db = (Inl NotDebtTransaction, ex_ledger_db)"
    by simp
  from n c m 1 2 show ?thesis by (simp add: ex_pay_def)
qed

subsection \<open>C9: stock never negative\<close>

text \<open>
  Claim C9: from a state in which every product's \<^verbatim>\<open>stock_quantity\<close> is at least
  zero, every \<^verbatim>\<open>createTransaction\<close> call, successful or failed, with or without
  repeated products in the cart, leaves every product's \<^verbatim>\<open>stock_quantity\<close> at least
  zero.
\<close>

theorem createTransaction_stock_nonneg:
  assumes "\<forall>p\<in>set (products s). 0 \<le> stock_quantity p"
  shows "\<forall>p\<in>set (products (snd (createTransaction inp s))). 0 \<le> stock_quantity p"
proof (cases "createTransaction inp s")
  case (Pair r s')
  show ?thesis
  proof (cases r)
    case (Inl e)
    with Pair createTransaction_Inl have "s' = s" by blast
    with Pair assms show ?thesis by simp
  next
    case (Inr t)
    with Pair createTransaction_Inr[of inp s t s'] obtain ps where
      c: "check_stock ps (items inp) = Inr ()" and
      u: "products s' = update_stock ps (items inp) (products s)" by auto
    from update_stock_nonneg[OF c[unfolded check_stock_Inr] assms] u Pair
    show ?thesis by simp
  qed
qed

theorem createTransaction_stock_nonneg_witness:
  "list_all (\<lambda>p. 0 \<le> stock_quantity p) (products ex_db) \<and>
   list_all (\<lambda>p. 0 \<le> stock_quantity p)
     (products (snd (createTransaction (ex_cart [ex_item 1 2, ex_item 1 2] 0) ex_db))) \<and>
   list_all (\<lambda>p. 0 \<le> stock_quantity p)
     (products (snd (createTransaction (ex_cart [ex_item 1 5] 0) ex_db)))"
proof -
  have h: "\<forall>p\<in>set (products ex_db). 0 \<le> stock_quantity p" by (simp add: ex_defs)
  from createTransaction_stock_nonneg[OF h, of "ex_cart [ex_item 1 2, ex_item 1 2] 0"]
    createTransaction_stock_nonneg[OF h, of "ex_cart [ex_item 1 5] 0"] h
  show ?thesis by (simp add: list_all_iff)
qed

subsection \<open>C10: the customer of a payment is not checked\<close>



end
